theory Spec2Isabelle
  imports Main
begin

section \<open>The NAT pinger of \<open>nat/traversal/pinger.go\<close>\<close>

text \<open>
  The pinger is modelled with a logical clock in milliseconds.  The clock advances
  only where the source waits: on a timer (\<open>time.After\<close>), in \<open>time.Sleep\<close> and
  while \<open>conn.Read\<close> blocks.  Every other statement takes no time.  What the
  operating system, the network and the scheduler decide is an explicit input of
  each function, and everything a function does to the outside is recorded, in
  program order, in a list of events.
\<close>

subsection \<open>Constants and errors\<close>

definition pingInterval :: nat where
  "pingInterval = 200"

definition pingTimeout :: nat where
  "pingTimeout = 10000"

text \<open>A Go \<open>error\<close> value is represented by its message.\<close>

datatype error = Error string

definition errors_New :: "string \<Rightarrow> error" where
  "errors_New msg = Error msg"

fun errors_Wrap :: "error \<Rightarrow> string \<Rightarrow> error" where
  "errors_Wrap (Error cause) msg = Error (msg @ '': '' @ cause)"

text \<open>
  A call either returns, or the goroutine stays suspended for ever at a blocking
  statement; \<open>Blocked\<close> names that statement.
\<close>

datatype suspension =
    InWaitForEvent    \<comment> \<open>\<open>p.natEventWaiter.WaitForEvent()\<close>\<close>
  | InDequeue         \<comment> \<open>\<open><-p.pingTarget\<close>\<close>
  | InSelect          \<comment> \<open>the \<open>select\<close> of \<open>ping\<close>\<close>
  | InRead            \<comment> \<open>\<open>conn.Read\<close>\<close>
  | InCancelSend      \<comment> \<open>\<open>p.pingCancelled <- struct{}{}\<close>\<close>

datatype 'a outcome = Returned 'a | Blocked suspension

subsection \<open>Sockets and events\<close>

text \<open>
  Modelled from the spec: \<open>services.ServiceType\<close> and \<open>port.Port\<close> are declared in
  packages that are not among the sources.  The spec calls the service type a tag
  that identifies the tunnelling protocol (its example is \<open>"wireguard"\<close>) and
  gives the port supplier's contract as \<open>acquire() \<rightarrow> localPort | error\<close>.
\<close>

type_synonym ServiceType = string

type_synonym port_Port = int

text \<open>
  A \<open>*net.UDPConn\<close>: \<open>cid\<close> stands for the identity of the pointer, the other
  two fields are the arguments \<open>net.DialUDP\<close> was called with.
\<close>

record conn =
  cid :: nat
  bind_port :: int
  raddr :: string

record Params =
  RequestConfig :: string
  Port :: int

datatype level = Trace | Info | Warn | Error_level

datatype event =
    Log level string                \<comment> \<open>a seelog call, by level and the fixed part of its text\<close>
  | WaitForEvent
  | Dequeue Params                  \<comment> \<open>\<open>pingParams := <-p.pingTarget\<close>\<close>
  | ResolveUDPAddr string
  | DialUDP int string              \<comment> \<open>local port, remote address\<close>
  | Go_ping conn                    \<comment> \<open>\<open>go func() { p.ping(conn) ... }()\<close>\<close>
  | Go_handOff ServiceType conn     \<comment> \<open>\<open>go p.natProxy.handOff(serviceType, conn)\<close>\<close>
  | Close conn
  | Acquire                         \<comment> \<open>\<open>portSupplier.Acquire()\<close>\<close>
  | SetTTL nat int                  \<comment> \<open>time of the call, TTL value (also when the call fails)\<close>
  | Write nat
  | Read nat                        \<comment> \<open>time at which \<open>conn.Read\<close> is entered\<close>
  | Println nat nat                 \<comment> \<open>time, number of bytes read\<close>
  | Sleep nat nat                   \<comment> \<open>\<open>time.Sleep\<close>: time at which it starts, its length\<close>
  | After nat nat                   \<comment> \<open>a wait on \<open>time.After\<close> alone: start, length\<close>
  | Opened conn                     \<comment> \<open>\<open>net.DialUDP\<close> returned this socket\<close>
  | SendCancel nat                  \<comment> \<open>time at which \<open>p.pingCancelled <- struct{}{}\<close> is reached\<close>

subsection \<open>The sender: \<open>ping\<close>\<close>

text \<open>
  Each iteration of the sender's loop is one \<open>select\<close>.  The schedule says which
  case fires: \<open>Cancelled\<close> when a value is received from \<open>pingCancelled\<close>,
  \<open>Tick e1 e2\<close> when the 200 ms timer fires, with the errors (if any) that
  \<open>SetTTL\<close> and \<open>conn.Write\<close> then return.  When the schedule is used up the
  sender is still suspended in its \<open>select\<close>.  The counter \<open>n\<close> is a Go \<open>int\<close>;
  it stays between 1 and 129, so it never wraps.
\<close>

datatype sender_step = Cancelled | Tick "error option" "error option"

fun ping_loop :: "nat \<Rightarrow> int \<Rightarrow> sender_step list \<Rightarrow> event list \<times> error option outcome" where
  "ping_loop now n [] = ([], Blocked InSelect)"
| "ping_loop now n (Cancelled # rest) = ([], Returned None)"
| "ping_loop now n (Tick ttl_err write_err # rest) =
     (let now' = now + pingInterval;
          n1 = (if n > 4 then 128 else n)
      in case ttl_err of
           Some e \<Rightarrow>
             ([Log Trace ''pinging.. '', SetTTL now' n1],
              Returned (Some (errors_Wrap e ''pinger setting ttl failed'')))
         | None \<Rightarrow>
             (let n2 = n1 + 1
              in case write_err of
                   Some e \<Rightarrow>
                     ([Log Trace ''pinging.. '', SetTTL now' n1, Write now'],
                      Returned (Some e))
                 | None \<Rightarrow>
                     (let (evs, r) = ping_loop now' n2 rest
                      in (Log Trace ''pinging.. '' # SetTTL now' n1 # Write now' # evs, r))))"

definition ping :: "nat \<Rightarrow> sender_step list \<Rightarrow> event list \<times> error option outcome" where
  "ping now steps = ping_loop now 1 steps"

text \<open>The TTL values handed to \<open>SetTTL\<close>, and the times of those calls, in order.\<close>

fun ttls :: "event list \<Rightarrow> int list" where
  "ttls [] = []"
| "ttls (SetTTL t n # evs) = n # ttls evs"
| "ttls (e # evs) = ttls evs"

fun ttl_times :: "event list \<Rightarrow> nat list" where
  "ttl_times [] = []"
| "ttl_times (SetTTL t n # evs) = t # ttl_times evs"
| "ttl_times (e # evs) = ttl_times evs"

text \<open>
  The clamping step of the counter alone, \<open>k\<close> ticks from the counter value \<open>n\<close>:
  the values the loop body computes for \<open>SetTTL\<close>.
\<close>

fun ramp :: "int \<Rightarrow> nat \<Rightarrow> int list" where
  "ramp n 0 = []"
| "ramp n (Suc k) = (if n > 4 then 128 else n) # ramp ((if n > 4 then 128 else n) + 1) k"

subsection \<open>The receiver: \<open>pingReceiver\<close>\<close>

text \<open>
  \<open>conn.Read\<close> is called without a read deadline, so it returns when the socket
  has something to report and not before.  The schedule lists what the successive
  calls return and how long each one blocks: \<open>ReadErr d e\<close> is an error after
  \<open>d\<close> ms, \<open>ReadOk d n\<close> a datagram of \<open>n\<close> bytes after \<open>d\<close> ms (\<open>n\<close> may be
  0: an empty UDP datagram is read as \<open>(0, nil)\<close>).  When the schedule is used up
  the next \<open>conn.Read\<close> never returns.

  The channel \<open>pingCancelled\<close> is unbuffered: the send completes only when a
  goroutine receives from it.  \<open>taken\<close> says whether one does.

  The timer channel \<open>timeout\<close> holds a value from the deadline on; it is looked at
  only in the \<open>select\<close> at the head of the loop.
\<close>

datatype read_outcome = ReadErr nat error | ReadOk nat nat

definition timed_out :: "bool \<Rightarrow> nat \<Rightarrow> event list \<times> nat \<times> error option outcome" where
  "timed_out taken now =
     ([SendCancel now], now,
      if taken then Returned (Some (errors_New ''NAT punch attempt timed out''))
      else Blocked InCancelSend)"

fun pingReceiver_loop ::
  "bool \<Rightarrow> nat \<Rightarrow> nat \<Rightarrow> read_outcome list \<Rightarrow> event list \<times> nat \<times> error option outcome" where
  "pingReceiver_loop taken deadline now [] =
     (if deadline \<le> now then timed_out taken now
      else ([Read now], now, Blocked InRead))"
| "pingReceiver_loop taken deadline now (ReadErr d e # rs) =
     (if deadline \<le> now then timed_out taken now
      else
        (let t = now + d;
             (evs, t', r) = pingReceiver_loop taken deadline (t + pingInterval) rs
         in (Read now # Log Error_level ''Failed to read remote peer'' # Sleep t pingInterval # evs,
             t', r)))"
| "pingReceiver_loop taken deadline now (ReadOk d n # rs) =
     (if deadline \<le> now then timed_out taken now
      else
        (let t = now + d;
             t' = t + 2 * pingInterval
         in ([Read now, Println t n, After t (2 * pingInterval), SendCancel t'], t',
             if taken then Returned None else Blocked InCancelSend)))"

definition pingReceiver ::
  "bool \<Rightarrow> nat \<Rightarrow> read_outcome list \<Rightarrow> event list \<times> nat \<times> error option outcome" where
  "pingReceiver taken now rs = pingReceiver_loop taken (now + pingTimeout) now rs"

text \<open>
  The sender of an attempt takes the cancellation when it is still in its loop,
  that is when none of its ticks so far has made \<open>ping\<close> return.
\<close>

definition sender_alive :: "nat \<Rightarrow> (error option \<times> error option) list \<Rightarrow> bool" where
  "sender_alive now ticks =
     (snd (ping now (map (\<lambda>(e1, e2). Tick e1 e2) ticks)) = Blocked InSelect)"

subsection \<open>Opening the socket: \<open>getConnection\<close>\<close>

text \<open>\<open>fmt.Sprintf("%d", i)\<close>.\<close>

fun digits :: "nat \<Rightarrow> string" where
  "digits n =
     (if n < 10 then [''0123456789'' ! n]
      else digits (n div 10) @ [''0123456789'' ! (n mod 10)])"

definition fmt_d :: "int \<Rightarrow> string" where
  "fmt_d i = (if i < 0 then ''-'' @ digits (nat (- i)) else digits (nat i))"

text \<open>
  What surrounds one punch attempt: the answers of \<open>net.ResolveUDPAddr\<close> and
  \<open>net.DialUDP\<close>, the ticks of the attempt's sender that fire before the
  cancellation is offered to it, what \<open>conn.Read\<close> returns, and for the dispatch
  loop how long it waits for the request.
\<close>

record world =
  idle :: nat
  resolve :: "string \<Rightarrow> error + string"
  dial :: "int \<Rightarrow> string \<Rightarrow> error option"
  ticks :: "(error option \<times> error option) list"
  reads :: "read_outcome list"

definition getConnection ::
  "world \<Rightarrow> nat \<Rightarrow> string \<Rightarrow> int \<Rightarrow> int \<Rightarrow> event list \<times> (error + conn)" where
  "getConnection w k ip port pingerPort =
     (let target = ip @ '':'' @ fmt_d port
      in case resolve w target of
           Inl e \<Rightarrow> ([ResolveUDPAddr target], Inl e)
         | Inr udpAddr \<Rightarrow>
             (case dial w pingerPort udpAddr of
                Some e \<Rightarrow>
                  ([ResolveUDPAddr target, Log Info ''remote socket: '',
                    DialUDP pingerPort udpAddr], Inl e)
              | None \<Rightarrow>
                  (let c = \<lparr>cid = k, bind_port = pingerPort, raddr = udpAddr\<rparr>
                   in ([ResolveUDPAddr target, Log Info ''remote socket: '',
                        DialUDP pingerPort udpAddr, Opened c, Log Info ''local socket: ''],
                       Inr c))))"

subsection \<open>The pinger\<close>

text \<open>
  Modelled from the spec: the type \<open>Event\<close> and the constant \<open>SuccessEventType\<close>
  are declared in a file of the package that is not among the sources; the spec
  gives the waiter's contract as \<open>waitForEvent() \<rightarrow> {Success, Failure}\<close>.
\<close>

datatype EventType = SuccessEventType | FailureEventType

record Event =
  Type :: EventType

text \<open>
  The collaborators are represented by what they answer: the event the waiter
  reports (\<open>None\<close> when \<open>WaitForEvent\<close> never returns), the parser's result
  \<open>(ip, port, serviceType, err)\<close>, the proxy's \<open>isAvailable\<close> and what the port
  supplier's \<open>Acquire\<close> would return.  The two channels are represented by the
  schedules of the functions that use them.
\<close>

record Pinger =
  natEventWaiter :: "Event option"
  configParser :: "string \<Rightarrow> string \<times> int \<times> ServiceType \<times> error option"
  natProxy :: "ServiceType \<Rightarrow> bool"
  portPool :: "error + port_Port"
  consumerPort :: int

definition NewPingerFactory ::
  "Event option \<Rightarrow> (string \<Rightarrow> string \<times> int \<times> ServiceType \<times> error option) \<Rightarrow>
   (ServiceType \<Rightarrow> bool) \<Rightarrow> error + port_Port \<Rightarrow> Pinger" where
  "NewPingerFactory waiter parser proxy pool =
     \<lparr>natEventWaiter = waiter, configParser = parser, natProxy = proxy, portPool = pool,
      consumerPort = 0\<rparr>"

definition BindConsumerPort :: "Pinger \<Rightarrow> int \<Rightarrow> Pinger" where
  "BindConsumerPort p port = p\<lparr>consumerPort := port\<rparr>"

text \<open>
  One iteration of the dispatch loop of \<open>Start\<close>, from the receive on
  \<open>pingTarget\<close> to the \<open>continue\<close> or the end of the body.  \<open>k\<close> numbers the
  iteration and names the socket it opens.

  The sender runs in a goroutine of its own; the loop goes on with the receiver.
  While \<open>Start\<close> alone uses the pinger, the one goroutine that can receive from
  \<open>pingCancelled\<close> is the sender of the current attempt: the sender of an earlier
  attempt has returned, on the cancellation of that attempt, before the loop came
  here.  So the receiver's send completes exactly when that sender is still in
  its loop.
\<close>

definition Start_iteration ::
  "Pinger \<Rightarrow> nat \<Rightarrow> nat \<Rightarrow> Params \<Rightarrow> world \<Rightarrow> event list \<times> nat \<times> unit outcome" where
  "Start_iteration p now k pingParams w =
     (let (IP, port, serviceType, err) = configParser p (RequestConfig pingParams);
          evs1 = [Dequeue pingParams, Log Info ''Pinging peer with''] @
                 (case err of
                    Some e \<Rightarrow> [Log Warn ''unable to parse ping message'']
                  | None \<Rightarrow> [])
      in if \<not> natProxy p serviceType then
           (evs1 @ [Log Warn '' NATProxy is not available for this transport protocol''],
            now, Returned ())
         else
           (let evs2 = evs1 @ [Log Info ''ping target received'']
            in if port = 0 then (evs2, now, Returned ())
               else
                 (let (cevs, c) = getConnection w k IP port (Port pingParams)
                  in case c of
                       Inl e \<Rightarrow>
                         (evs2 @ cevs @ [Log Error_level ''failed to get connection: ''],
                          now, Returned ())
                     | Inr conn \<Rightarrow>
                         (let (revs, t, r) =
                                pingReceiver (sender_alive now (ticks w)) now (reads w);
                              evs3 = evs2 @ cevs @ [Go_ping conn] @ revs
                          in case r of
                               Blocked s \<Rightarrow> (evs3, t, Blocked s)
                             | Returned (Some e) \<Rightarrow>
                                 (evs3 @ [Log Error_level ''ping receiver error: ''],
                                  t, Returned ())
                             | Returned None \<Rightarrow>
                                 (evs3 @
                                  [Log Info ''ping received, waiting for a new connection'',
                                   Go_handOff serviceType conn],
                                  t, Returned ())))))"

text \<open>
  The \<open>for\<close> loop over the requests in the order in which they are received from
  \<open>pingTarget\<close>.  The loop has no exit: when the requests are used up it waits in
  the receive.
\<close>

fun Start_loop ::
  "Pinger \<Rightarrow> nat \<Rightarrow> nat \<Rightarrow> (Params \<times> world) list \<Rightarrow> event list \<times> unit outcome" where
  "Start_loop p now k [] = ([], Blocked InDequeue)"
| "Start_loop p now k ((pingParams, w) # queue) =
     (let (evs, now', r) = Start_iteration p (now + idle w) k pingParams w
      in case r of
           Blocked s \<Rightarrow> (evs, Blocked s)
         | Returned u \<Rightarrow>
             (let (evs', r') = Start_loop p now' (Suc k) queue
              in (evs @ evs', r')))"

definition Start :: "Pinger \<Rightarrow> nat \<Rightarrow> (Params \<times> world) list \<Rightarrow> event list \<times> unit outcome" where
  "Start p now queue =
     (case natEventWaiter p of
        None \<Rightarrow> ([Log Info ''Starting a NAT pinger'', WaitForEvent], Blocked InWaitForEvent)
      | Some ev \<Rightarrow>
          if Type ev = SuccessEventType then
            ([Log Info ''Starting a NAT pinger'', WaitForEvent], Returned ())
          else
            (let (evs, r) = Start_loop p now 0 queue
             in (Log Info ''Starting a NAT pinger'' # WaitForEvent # evs, r)))"

text \<open>The consumer side.  The deferred \<open>conn.Close()\<close> runs at each return after the dial.\<close>

definition PingProvider ::
  "Pinger \<Rightarrow> nat \<Rightarrow> world \<Rightarrow> string \<Rightarrow> int \<Rightarrow> event list \<times> nat \<times> error option outcome" where
  "PingProvider p now w ip port =
     (let (cevs, c) = getConnection w 0 ip port (consumerPort p);
          evs1 = Log Info ''NAT pinging to provider'' # cevs
      in case c of
           Inl e \<Rightarrow> (evs1, now, Returned (Some (errors_Wrap e ''failed to get connection'')))
         | Inr conn \<Rightarrow>
             (let t1 = now + pingInterval;
                  (revs, t2, r) = pingReceiver (sender_alive now (ticks w)) t1 (reads w);
                  evs2 = evs1 @ [Go_ping conn, Sleep now pingInterval] @ revs
              in case r of
                   Blocked s \<Rightarrow> (evs2, t2, Blocked s)
                 | Returned (Some e) \<Rightarrow> (evs2 @ [Close conn], t2, Returned (Some e))
                 | Returned None \<Rightarrow>
                     (evs2 @ [Sleep t2 200, Close conn], t2 + 200, Returned None)))"

subsection \<open>Reading traces\<close>

text \<open>The times at which the cancellation is offered, and at which \<open>conn.Read\<close> is entered.\<close>

fun cancel_times :: "event list \<Rightarrow> nat list" where
  "cancel_times [] = []"
| "cancel_times (SendCancel t # evs) = t # cancel_times evs"
| "cancel_times (e # evs) = cancel_times evs"

fun read_times :: "event list \<Rightarrow> nat list" where
  "read_times [] = []"
| "read_times (Read t # evs) = t # read_times evs"
| "read_times (e # evs) = read_times evs"

text \<open>
  A run of failing reads, each given by how long it blocks and its error, and the
  time the receiver spends on it: every failed read is followed by a sleep of one
  ping interval.
\<close>

definition read_errors :: "(nat \<times> error) list \<Rightarrow> read_outcome list" where
  "read_errors errs = map (\<lambda>(d, e). ReadErr d e) errs"

definition errors_span :: "(nat \<times> error) list \<Rightarrow> nat" where
  "errors_span errs = sum_list (map (\<lambda>(d, e). d + pingInterval) errs)"

text \<open>The sockets a trace opens, hands off and closes, and the local ports it dials with.\<close>

fun opened :: "event list \<Rightarrow> conn list" where
  "opened [] = []"
| "opened (Opened c # evs) = c # opened evs"
| "opened (e # evs) = opened evs"

fun handoffs :: "event list \<Rightarrow> (ServiceType \<times> conn) list" where
  "handoffs [] = []"
| "handoffs (Go_handOff st c # evs) = (st, c) # handoffs evs"
| "handoffs (e # evs) = handoffs evs"

fun closes :: "event list \<Rightarrow> conn list" where
  "closes [] = []"
| "closes (Close c # evs) = c # closes evs"
| "closes (e # evs) = closes evs"

fun dial_ports :: "event list \<Rightarrow> int list" where
  "dial_ports [] = []"
| "dial_ports (DialUDP lport a # evs) = lport # dial_ports evs"
| "dial_ports (e # evs) = dial_ports evs"

text \<open>
  The two log lines that follow the return of \<open>pingReceiver\<close> in the dispatch
  loop mark the end of an attempt.  \<open>serialized busy evs\<close> reads a trace from the
  left, \<open>busy\<close> saying whether an attempt is under way: a request is dequeued and
  a sender is started only when none is, and an attempt ends only when one is.
\<close>

definition attempt_end :: "level \<Rightarrow> string \<Rightarrow> bool" where
  "attempt_end lv msg =
     ((lv = Error_level \<and> msg = ''ping receiver error: '') \<or>
      (lv = Info \<and> msg = ''ping received, waiting for a new connection''))"

fun serialized :: "bool \<Rightarrow> event list \<Rightarrow> bool" where
  "serialized busy [] = True"
| "serialized busy (Dequeue prm # evs) = (\<not> busy \<and> serialized False evs)"
| "serialized busy (Go_ping c # evs) = (\<not> busy \<and> serialized True evs)"
| "serialized busy (Log lv msg # evs) =
     (if attempt_end lv msg then busy \<and> serialized False evs else serialized busy evs)"
| "serialized busy (e # evs) = serialized busy evs"

subsection \<open>Example inputs\<close>

text \<open>
  A provider whose port mapping failed, with a parser that decodes every request
  to \<open>10.0.0.5:51000\<close> for the service \<open>wireguard\<close>, a proxy that serves
  \<open>wireguard\<close> and a port supplier that would hand out port 7000; a request that
  carries the local port 5000.
\<close>

definition example_pinger :: Pinger where
  "example_pinger =
     NewPingerFactory (Some \<lparr>Type = FailureEventType\<rparr>)
       (\<lambda>cfg. (''10.0.0.5'', 51000, ''wireguard'', None))
       (\<lambda>st. st = ''wireguard'') (Inr 7000)"

definition example_request :: Params where
  "example_request = \<lparr>RequestConfig = ''{}'', Port = 5000\<rparr>"

text \<open>The peer answers 600 ms into the first read; the sender has ticked five times by then.\<close>

definition world_answer :: world where
  "world_answer =
     \<lparr>idle = 0, resolve = (\<lambda>s. Inr s), dial = (\<lambda>lport a. None),
      ticks = replicate 5 (None, None), reads = [ReadOk 600 24]\<rparr>"

text \<open>The local port is taken: \<open>net.DialUDP\<close> fails.\<close>

definition world_dial_fails :: world where
  "world_dial_fails =
     \<lparr>idle = 0, resolve = (\<lambda>s. Inr s),
      dial = (\<lambda>lport a. Some (Error ''bind: address already in use'')),
      ticks = [], reads = []\<rparr>"

text \<open>
  No datagram arrives; the one read fails after 9,900 ms, so that the loop comes
  back to its head 10,100 ms after the receiver was entered.
\<close>

definition world_silent :: world where
  "world_silent =
     \<lparr>idle = 0, resolve = (\<lambda>s. Inr s), dial = (\<lambda>lport a. None),
      ticks = replicate 50 (None, None),
      reads = [ReadErr 9900 (Error ''read: connection refused'')]\<rparr>"


text \<open>The same provider with a parser that returns the same values together with an error.\<close>

definition failing_parser_pinger :: Pinger where
  "failing_parser_pinger =
     NewPingerFactory (Some \<lparr>Type = FailureEventType\<rparr>)
       (\<lambda>cfg. (''10.0.0.5'', 51000, ''wireguard'', Some (Error ''unexpected end of JSON input'')))
       (\<lambda>st. st = ''wireguard'') (Inr 7000)"

section \<open>Properties\<close>

subsection \<open>The sender's TTL sequence\<close>

lemma ping_loop_tick_ok:
  "ping_loop now n (Tick None None # rest) =
     (Log Trace ''pinging.. '' # SetTTL (now + pingInterval) (if n > 4 then 128 else n) #
        Write (now + pingInterval) #
        fst (ping_loop (now + pingInterval) ((if n > 4 then 128 else n) + 1) rest),
      snd (ping_loop (now + pingInterval) ((if n > 4 then 128 else n) + 1) rest))"
  by (simp add: Let_def case_prod_beta)

lemma ttls_ping_loop:
  "ttls (fst (ping_loop now n steps)) = ramp n (length (ttls (fst (ping_loop now n steps))))"
proof (induction now n steps rule: ping_loop.induct)
  case (3 now n ttl_err write_err rest)
  then show ?case
    by (cases ttl_err; cases write_err) (simp_all add: Let_def case_prod_beta)
qed simp_all

lemma times_ping_loop:
  "ttl_times (fst (ping_loop now n steps)) =
     map (\<lambda>i. now + pingInterval * (i + 1)) [0..<length (ttls (fst (ping_loop now n steps)))]"
proof (induction now n steps rule: ping_loop.induct)
  case (3 now n ttl_err write_err rest)
  then show ?case
    by (cases ttl_err; cases write_err)
       (simp_all add: Let_def case_prod_beta map_upt_Suc add.assoc del: upt_Suc)
qed simp_all

lemma length_ttls_all_ticks:
  "length (ttls (fst (ping_loop now n (replicate m (Tick None None))))) = m"
  by (induction m arbitrary: now n) (simp_all add: ping_loop_tick_ok del: ping_loop.simps(3))

lemma ramp_high: "n > 4 \<Longrightarrow> ramp n k = replicate k 128"
  by (induction k arbitrary: n) auto

lemma ramp_1: "ramp 1 k = take k ([1, 2, 3, 4] @ replicate k 128)"
proof -
  consider "k = 0" | "k = 1" | "k = 2" | "k = 3" | j where "k = 4 + j"
    by (cases "k < 4") (auto simp: le_iff_add not_less, arith)
  then show ?thesis
  proof cases
    case 5
    have "ramp 1 k = [1, 2, 3, 4] @ replicate j 128"
      by (simp add: 5 numeral_eq_Suc ramp_high)
    moreover have "take (4 + j) ([1, 2, 3, 4] @ ys) = [1, 2, 3, 4] @ take j ys" for ys :: "int list"
      by (simp add: numeral_eq_Suc)
    then have "take k ([1, 2, 3, 4] @ replicate k (128::int)) = [1, 2, 3, 4] @ replicate j 128"
      unfolding 5 by (simp del: append.simps take_Cons_numeral)
    ultimately show ?thesis by simp
  qed (simp_all add: numeral_eq_Suc)
qed

lemma ramp_bounds:
  "1 \<le> n \<Longrightarrow> n \<le> 129 \<Longrightarrow>
   sorted (ramp n k) \<and> (\<forall>x\<in>set (ramp n k). n \<le> x \<or> x = 128) \<and>
   (\<forall>x\<in>set (ramp n k). 1 \<le> x \<and> x \<le> 128)"
proof (induction k arbitrary: n)
  case (Suc k)
  show ?case
  proof (cases "n > 4")
    case True
    then show ?thesis using Suc.prems by (simp add: ramp_high)
  next
    case False
    then have "1 \<le> n + 1" "n + 1 \<le> 129" using Suc.prems by auto
    from Suc.IH[OF this] False Suc.prems show ?thesis by fastforce
  qed
qed simp

text \<open>
  C1.  Whatever the schedule of the sender, the TTL values it sets are, in order,
  an initial part of 1, 2, 3, 4, 128, 128, ...: the list of the values set is the
  list \<open>[1, 2, 3, 4]\<close> followed by 128s, cut at its own length.  The list is
  non-decreasing and its members lie between 1 and 128.  The \<open>i\<close>-th value is set
  \<open>200 * (i + 1)\<close> ms after the sender was started, one value per tick.  When
  \<open>m\<close> ticks fire and neither \<open>SetTTL\<close> nor the write fails, exactly the first
  \<open>m\<close> values of the sequence are set.
\<close>

theorem ping_ttl_sequence:
  "ttls (fst (ping now steps)) =
     take (length (ttls (fst (ping now steps))))
       ([1, 2, 3, 4] @ replicate (length (ttls (fst (ping now steps)))) 128)
   \<and> sorted (ttls (fst (ping now steps)))
   \<and> (\<forall>n\<in>set (ttls (fst (ping now steps))). 1 \<le> n \<and> n \<le> 128)
   \<and> ttl_times (fst (ping now steps)) =
       map (\<lambda>i. now + 200 * (i + 1)) [0..<length (ttls (fst (ping now steps)))]
   \<and> ttls (fst (ping now (replicate m (Tick None None)))) =
       take m ([1, 2, 3, 4] @ replicate m 128)"
proof -
  let ?ts = "ttls (fst (ping now steps))"
  have eq: "?ts = ramp 1 (length ?ts)"
    unfolding ping_def by (rule ttls_ping_loop)
  have b: "sorted (ramp 1 (length ?ts)) \<and> (\<forall>x\<in>set (ramp 1 (length ?ts)). 1 \<le> x \<and> x \<le> 128)"
    using ramp_bounds[of 1 "length ?ts"] by simp
  have 1: "?ts = take (length ?ts) ([1, 2, 3, 4] @ replicate (length ?ts) 128)"
    using eq ramp_1[of "length ?ts"] by simp
  have 2: "sorted ?ts" and 3: "\<forall>n\<in>set ?ts. 1 \<le> n \<and> n \<le> 128"
    using eq b by simp_all
  have 4: "ttl_times (fst (ping now steps)) = map (\<lambda>i. now + 200 * (i + 1)) [0..<length ?ts]"
    using times_ping_loop[of now 1 steps] by (simp add: ping_def pingInterval_def)
  have 5: "ttls (fst (ping now (replicate m (Tick None None)))) =
      take m ([1, 2, 3, 4] @ replicate m 128)"
    using ttls_ping_loop[of now 1 "replicate m (Tick None None)"]
    by (simp add: ping_def length_ttls_all_ticks ramp_1)
  from 1 2 3 4 5 show ?thesis by blast
qed

theorem ping_ttl_sequence_witness:
  "ttls (fst (ping 0 [Tick None None, Tick None None, Tick None None, Tick None None,
                      Tick None None, Tick None None, Cancelled])) = [1, 2, 3, 4, 128, 128]
   \<and> ttl_times (fst (ping 0 [Tick None None, Tick None None, Tick None None, Tick None None,
                      Tick None None, Tick None None, Cancelled])) =
       [200, 400, 600, 800, 1000, 1200]
   \<and> sorted (ttls (fst (ping 0 [Tick None None, Tick None None, Tick None None,
                      Tick None None, Tick None None, Tick None None, Cancelled])))"
  using ping_ttl_sequence[of 0 "[Tick None None, Tick None None, Tick None None, Tick None None,
                      Tick None None, Tick None None, Cancelled]" 6]
  by (simp add: ping_def pingInterval_def Let_def)

subsection \<open>The receiver\<close>

lemma read_errors_simps [simp]:
  "read_errors [] = []"
  "read_errors ((d, e) # errs) = ReadErr d e # read_errors errs"
  by (simp_all add: read_errors_def)

lemma errors_span_simps [simp]:
  "errors_span [] = 0"
  "errors_span ((d, e) # errs) = d + pingInterval + errors_span errs"
  by (simp_all add: errors_span_def)

lemma recv_loop_read_err:
  "now < deadline \<Longrightarrow>
   pingReceiver_loop taken deadline now (ReadErr d e # rs) =
     (Read now # Log Error_level ''Failed to read remote peer'' # Sleep (now + d) pingInterval #
        fst (pingReceiver_loop taken deadline (now + d + pingInterval) rs),
      snd (pingReceiver_loop taken deadline (now + d + pingInterval) rs))"
  by (simp add: Let_def case_prod_beta)

lemma recv_loop_past_deadline:
  "deadline \<le> now \<Longrightarrow> pingReceiver_loop taken deadline now rs = timed_out taken now"
  by (cases "(taken, deadline, now, rs)" rule: pingReceiver_loop.cases) simp_all

lemma recv_loop_after_errors:
  "now + errors_span errs < deadline \<Longrightarrow>
   snd (pingReceiver_loop taken deadline now (read_errors errs @ rs)) =
     snd (pingReceiver_loop taken deadline (now + errors_span errs) rs)
   \<and> cancel_times (fst (pingReceiver_loop taken deadline now (read_errors errs @ rs))) =
     cancel_times (fst (pingReceiver_loop taken deadline (now + errors_span errs) rs))
   \<and> length (read_times (fst (pingReceiver_loop taken deadline now (read_errors errs @ rs)))) =
     length errs +
     length (read_times (fst (pingReceiver_loop taken deadline (now + errors_span errs) rs)))"
proof (induction errs arbitrary: now)
  case Nil
  then show ?case by simp
next
  case (Cons a errs)
  obtain d e where a: "a = (d, e)" by (cases a)
  from Cons.prems have lt: "now < deadline" and
    nxt: "(now + d + pingInterval) + errors_span errs < deadline"
    by (simp_all add: a)
  from Cons.IH[OF nxt] lt show ?case
    by (simp add: a recv_loop_read_err add.assoc del: pingReceiver_loop.simps)
qed



lemma recv_loop_empty_datagram:
  "snd (pingReceiver_loop taken deadline now (read_errors errs @ ReadOk d 0 # rest)) =
     snd (pingReceiver_loop taken deadline now (read_errors errs @ ReadOk d n # rest))
   \<and> cancel_times (fst (pingReceiver_loop taken deadline now (read_errors errs @ ReadOk d 0 # rest))) =
     cancel_times (fst (pingReceiver_loop taken deadline now (read_errors errs @ ReadOk d n # rest)))"
proof (induction errs arbitrary: now)
  case Nil
  then show ?case by (simp add: timed_out_def Let_def)
next
  case (Cons a errs)
  obtain d' e where a: "a = (d', e)" by (cases a)
  show ?case
  proof (cases "deadline \<le> now")
    case True
    then show ?thesis by (simp add: a)
  next
    case False
    then have lt: "now < deadline" by simp
    from Cons.IH[of "now + d' + pingInterval"] show ?thesis
      by (simp add: a recv_loop_read_err[OF lt] del: pingReceiver_loop.simps)
  qed
qed

lemma recv_timeout_after_errors:
  "deadline \<le> now + errors_span errs \<Longrightarrow>
   snd (snd (pingReceiver_loop taken deadline now (read_errors errs @ rs))) =
     (if taken then Returned (Some (Error ''NAT punch attempt timed out''))
      else Blocked InCancelSend)
   \<and> length (cancel_times (fst (pingReceiver_loop taken deadline now (read_errors errs @ rs)))) = 1
   \<and> deadline \<le> fst (snd (pingReceiver_loop taken deadline now (read_errors errs @ rs)))"
proof (induction errs arbitrary: now)
  case Nil
  then show ?case by (simp add: recv_loop_past_deadline timed_out_def errors_New_def)
next
  case (Cons a errs)
  obtain d' e where a: "a = (d', e)" by (cases a)
  show ?case
  proof (cases "deadline \<le> now")
    case True
    then show ?thesis by (simp add: a timed_out_def errors_New_def)
  next
    case False
    then have lt: "now < deadline" by simp
    from Cons.prems have "deadline \<le> (now + d' + pingInterval) + errors_span errs"
      by (simp add: a)
    from Cons.IH[OF this] show ?thesis
      by (simp add: a recv_loop_read_err[OF lt] del: pingReceiver_loop.simps)
  qed
qed

text \<open>
  C2.  The claim: when no datagram arrives within 10,000 ms of entering
  \<open>pingReceiver\<close>, the attempt resolves to the timeout error and one cancellation
  is sent.  The timer is looked at only between two reads, and the read has no
  deadline.  With a peer that stays silent and sends its first datagram 10,500 ms
  after the receiver was entered, the first \<open>conn.Read\<close> returns at 10,500 ms and
  the receiver returns success at 10,900 ms, not the timeout error.  With a peer
  that never sends and a socket that reports no error, the first \<open>conn.Read\<close>
  never returns: the receiver neither returns nor offers the cancellation.
\<close>

theorem late_datagram_is_success:
  "pingReceiver True 0 [ReadOk 10500 1] =
     ([Read 0, Println 10500 1, After 10500 400, SendCancel 10900], 10900, Returned None)
   \<and> pingReceiver True 0 [] = ([Read 0], 0, Blocked InRead)"
  by (simp add: pingReceiver_def pingTimeout_def pingInterval_def)

text \<open>
  C10.  A read that returns 0 bytes and no error is a successful read: after any
  run of failing reads, the receiver's time, its result and the cancellations it
  offers are the same for an empty datagram as for a datagram of \<open>n\<close> bytes.
  Read first, or after a run of failing reads that ends before the deadline, an
  empty datagram gives the success path: the cancellation is offered 400 ms
  later and success is returned when the sender takes it.
\<close>

theorem empty_datagram_success:
  "snd (pingReceiver taken now (read_errors errs @ ReadOk d 0 # rest)) =
     snd (pingReceiver taken now (read_errors errs @ ReadOk d n # rest))
   \<and> cancel_times (fst (pingReceiver taken now (read_errors errs @ ReadOk d 0 # rest))) =
     cancel_times (fst (pingReceiver taken now (read_errors errs @ ReadOk d n # rest)))
   \<and> pingReceiver taken now (ReadOk d 0 # rest) =
       ([Read now, Println (now + d) 0, After (now + d) 400, SendCancel (now + d + 400)],
        now + d + 400, if taken then Returned None else Blocked InCancelSend)
   \<and> (errors_span errs < pingTimeout \<longrightarrow>
       snd (pingReceiver taken now (read_errors errs @ ReadOk d 0 # rest)) =
         (now + errors_span errs + d + 400,
          if taken then Returned None else Blocked InCancelSend))"
proof -
  have 1: "snd (pingReceiver taken now (read_errors errs @ ReadOk d 0 # rest)) =
       snd (pingReceiver taken now (read_errors errs @ ReadOk d n # rest))
     \<and> cancel_times (fst (pingReceiver taken now (read_errors errs @ ReadOk d 0 # rest))) =
       cancel_times (fst (pingReceiver taken now (read_errors errs @ ReadOk d n # rest)))"
    unfolding pingReceiver_def
    by (rule recv_loop_empty_datagram)
  have 2: "pingReceiver taken now (ReadOk d 0 # rest) =
       ([Read now, Println (now + d) 0, After (now + d) 400, SendCancel (now + d + 400)],
        now + d + 400, if taken then Returned None else Blocked InCancelSend)"
    by (simp add: pingReceiver_def pingTimeout_def pingInterval_def Let_def)
  have 3: "snd (pingReceiver taken now (read_errors errs @ ReadOk d 0 # rest)) =
         (now + errors_span errs + d + 400,
          if taken then Returned None else Blocked InCancelSend)"
    if "errors_span errs < pingTimeout"
  proof -
    from that have lt: "now + errors_span errs < now + pingTimeout" by simp
    show ?thesis
      unfolding pingReceiver_def
      using recv_loop_after_errors[OF lt, of taken "ReadOk d 0 # rest"] lt
      by (simp add: pingInterval_def Let_def)
  qed
  from 1 2 3 show ?thesis by blast
qed

theorem empty_datagram_success_witness:
  "pingReceiver True 0 (ReadOk 600 0 # []) =
     ([Read 0, Println 600 0, After 600 400, SendCancel 1000], 1000, Returned None)
   \<and> errors_span [(100, Error ''connection refused'')] < pingTimeout
   \<and> snd (pingReceiver True 0
       (read_errors [(100, Error ''connection refused'')] @ ReadOk 300 0 # [])) =
     (1000, Returned None)"
  using empty_datagram_success[of True 0 "[(100, Error ''connection refused'')]" 300 "[]" 7]
  by (simp add: pingReceiver_def pingTimeout_def pingInterval_def Let_def)

subsection \<open>Traces of the dispatch loop and of the consumer side\<close>

lemma opened_append: "opened (xs @ ys) = opened xs @ opened ys"
  by (induction xs rule: opened.induct) simp_all

lemma handoffs_append: "handoffs (xs @ ys) = handoffs xs @ handoffs ys"
  by (induction xs rule: handoffs.induct) simp_all

lemma closes_append: "closes (xs @ ys) = closes xs @ closes ys"
  by (induction xs rule: closes.induct) simp_all

lemma dial_ports_append: "dial_ports (xs @ ys) = dial_ports xs @ dial_ports ys"
  by (induction xs rule: dial_ports.induct) simp_all

lemma getConnection_cases:
  "getConnection w k ip port lp =
     (case resolve w (ip @ '':'' @ fmt_d port) of
        Inl e \<Rightarrow> ([ResolveUDPAddr (ip @ '':'' @ fmt_d port)], Inl e)
      | Inr a \<Rightarrow>
          (case dial w lp a of
             Some e \<Rightarrow> ([ResolveUDPAddr (ip @ '':'' @ fmt_d port), Log Info ''remote socket: '',
                          DialUDP lp a], Inl e)
           | None \<Rightarrow> ([ResolveUDPAddr (ip @ '':'' @ fmt_d port), Log Info ''remote socket: '',
                        DialUDP lp a, Opened \<lparr>cid = k, bind_port = lp, raddr = a\<rparr>,
                        Log Info ''local socket: ''],
                       Inr \<lparr>cid = k, bind_port = lp, raddr = a\<rparr>)))"
  by (simp add: getConnection_def Let_def split: sum.splits option.splits)

lemma getConnection_trace:
  "opened (fst (getConnection w k ip port lp)) =
     (case snd (getConnection w k ip port lp) of Inl e \<Rightarrow> [] | Inr c \<Rightarrow> [c])"
  "handoffs (fst (getConnection w k ip port lp)) = []"
  "closes (fst (getConnection w k ip port lp)) = []"
  "Acquire \<notin> set (fst (getConnection w k ip port lp))"
  by (simp_all add: getConnection_cases split: sum.splits option.splits)

lemma getConnection_conn:
  "snd (getConnection w k ip port lp) = Inr c \<Longrightarrow> cid c = k \<and> bind_port c = lp"
  by (auto simp: getConnection_cases split: sum.splits option.splits)

lemma getConnection_dial_ports:
  "dial_ports (fst (getConnection w k ip port lp)) =
     (case resolve w (ip @ '':'' @ fmt_d port) of Inl e \<Rightarrow> [] | Inr a \<Rightarrow> [lp])"
  by (simp add: getConnection_cases split: sum.splits option.splits)

lemma recv_loop_trace:
  "opened (fst (pingReceiver_loop taken dl now rs)) = []"
  "handoffs (fst (pingReceiver_loop taken dl now rs)) = []"
  "closes (fst (pingReceiver_loop taken dl now rs)) = []"
  "dial_ports (fst (pingReceiver_loop taken dl now rs)) = []"
  "Acquire \<notin> set (fst (pingReceiver_loop taken dl now rs))"
  by (induction taken dl now rs rule: pingReceiver_loop.induct;
      simp add: timed_out_def Let_def case_prod_beta)+

lemma Start_iteration_attempt:
  assumes "configParser p (RequestConfig prm) = (ip, port, st, err)"
    and "natProxy p st" and "port \<noteq> 0"
  shows "Start_iteration p now k prm w =
     (let evs2 = [Dequeue prm, Log Info ''Pinging peer with''] @
                 (case err of Some e \<Rightarrow> [Log Warn ''unable to parse ping message''] | None \<Rightarrow> []) @
                 [Log Info ''ping target received''];
          G = getConnection w k ip port (Port prm);
          R = pingReceiver (sender_alive now (ticks w)) now (reads w)
      in case snd G of
           Inl e \<Rightarrow> (evs2 @ fst G @ [Log Error_level ''failed to get connection: ''], now, Returned ())
         | Inr c \<Rightarrow>
             (case snd (snd R) of
                Blocked s \<Rightarrow> (evs2 @ fst G @ [Go_ping c] @ fst R, fst (snd R), Blocked s)
              | Returned (Some e) \<Rightarrow>
                  (evs2 @ fst G @ [Go_ping c] @ fst R @ [Log Error_level ''ping receiver error: ''],
                   fst (snd R), Returned ())
              | Returned None \<Rightarrow>
                  (evs2 @ fst G @ [Go_ping c] @ fst R @
                   [Log Info ''ping received, waiting for a new connection'', Go_handOff st c],
                   fst (snd R), Returned ())))"
  using assms
  by (simp add: Start_iteration_def Let_def case_prod_beta
      split: sum.splits outcome.splits option.splits)

lemma Start_iteration_skipped:
  assumes "configParser p (RequestConfig prm) = (ip, port, st, err)"
    and "\<not> natProxy p st \<or> port = 0"
  shows "Start_iteration p now k prm w =
     ([Dequeue prm, Log Info ''Pinging peer with''] @
      (case err of Some e \<Rightarrow> [Log Warn ''unable to parse ping message''] | None \<Rightarrow> []) @
      [if \<not> natProxy p st
       then Log Warn '' NATProxy is not available for this transport protocol''
       else Log Info ''ping target received''],
      now, Returned ())"
  using assms by (auto simp: Start_iteration_def Let_def)

lemma Start_loop_step:
  "Start_loop p now k ((prm, w) # queue) =
     (case snd (snd (Start_iteration p (now + idle w) k prm w)) of
        Blocked s \<Rightarrow> (fst (Start_iteration p (now + idle w) k prm w), Blocked s)
      | Returned u \<Rightarrow>
          (fst (Start_iteration p (now + idle w) k prm w) @
           fst (Start_loop p (fst (snd (Start_iteration p (now + idle w) k prm w))) (Suc k) queue),
           snd (Start_loop p (fst (snd (Start_iteration p (now + idle w) k prm w))) (Suc k) queue)))"
  by (simp add: case_prod_beta Let_def split: outcome.splits)

lemma PingProvider_cases:
  "PingProvider p now w ip port =
     (let G = getConnection w 0 ip port (consumerPort p);
          R = pingReceiver (sender_alive now (ticks w)) (now + pingInterval) (reads w)
      in case snd G of
           Inl e \<Rightarrow> (Log Info ''NAT pinging to provider'' # fst G, now,
                     Returned (Some (errors_Wrap e ''failed to get connection'')))
         | Inr c \<Rightarrow>
             (case snd (snd R) of
                Blocked s \<Rightarrow>
                  (Log Info ''NAT pinging to provider'' # fst G @
                   [Go_ping c, Sleep now pingInterval] @ fst R, fst (snd R), Blocked s)
              | Returned (Some e) \<Rightarrow>
                  (Log Info ''NAT pinging to provider'' # fst G @
                   [Go_ping c, Sleep now pingInterval] @ fst R @ [Close c],
                   fst (snd R), Returned (Some e))
              | Returned None \<Rightarrow>
                  (Log Info ''NAT pinging to provider'' # fst G @
                   [Go_ping c, Sleep now pingInterval] @ fst R @
                   [Sleep (fst (snd R)) 200, Close c],
                   fst (snd R) + 200, Returned None)))"
  by (simp add: PingProvider_def Let_def case_prod_beta
      split: sum.splits outcome.splits option.splits)

lemma ping_loop_all_ok:
  "snd (ping_loop now n (replicate m (Tick None None))) = Blocked InSelect"
  by (induction m arbitrary: now n) (simp_all add: Let_def case_prod_beta)

lemma sender_alive_all_ok [simp]: "sender_alive now (replicate m (None, None))"
  by (simp add: sender_alive_def ping_def ping_loop_all_ok)

lemma sender_alive_Nil [simp]: "sender_alive now []"
  by (simp add: sender_alive_def ping_def)

subsection \<open>The example runs\<close>

lemma fmt_d_51000: "fmt_d 51000 = ''51000''"
  by (simp add: fmt_d_def)

lemma example_pinger_parse:
  "configParser example_pinger (RequestConfig example_request) =
     (''10.0.0.5'', 51000, ''wireguard'', None)"
  "natProxy example_pinger ''wireguard''"
  by (simp_all add: example_pinger_def NewPingerFactory_def)

lemma getConnection_example:
  "resolve w = (\<lambda>s. Inr s) \<Longrightarrow> dial w = (\<lambda>lport a. None) \<Longrightarrow>
   getConnection w k ''10.0.0.5'' 51000 lp =
     ([ResolveUDPAddr ''10.0.0.5:51000'', Log Info ''remote socket: '',
       DialUDP lp ''10.0.0.5:51000'',
       Opened \<lparr>cid = k, bind_port = lp, raddr = ''10.0.0.5:51000''\<rparr>,
       Log Info ''local socket: ''],
      Inr \<lparr>cid = k, bind_port = lp, raddr = ''10.0.0.5:51000''\<rparr>)"
  by (simp add: getConnection_cases fmt_d_51000)

lemma pingReceiver_answer:
  "pingReceiver True now [ReadOk 600 24] =
     ([Read now, Println (now + 600) 24, After (now + 600) 400, SendCancel (now + 1000)],
      now + 1000, Returned None)"
  by (simp add: pingReceiver_def pingTimeout_def pingInterval_def Let_def)

lemma pingReceiver_silent:
  "pingReceiver True now [ReadErr 9900 e] =
     ([Read now, Log Error_level ''Failed to read remote peer'', Sleep (now + 9900) 200,
       SendCancel (now + 10100)],
      now + 10100, Returned (Some (Error ''NAT punch attempt timed out'')))"
  by (simp add: pingReceiver_def pingTimeout_def pingInterval_def Let_def timed_out_def
      errors_New_def)

lemma iteration_example_answer:
  "Start_iteration example_pinger now k example_request world_answer =
     ([Dequeue example_request, Log Info ''Pinging peer with'',
       Log Info ''ping target received'',
       ResolveUDPAddr ''10.0.0.5:51000'', Log Info ''remote socket: '',
       DialUDP 5000 ''10.0.0.5:51000'',
       Opened \<lparr>cid = k, bind_port = 5000, raddr = ''10.0.0.5:51000''\<rparr>,
       Log Info ''local socket: '',
       Go_ping \<lparr>cid = k, bind_port = 5000, raddr = ''10.0.0.5:51000''\<rparr>,
       Read now, Println (now + 600) 24, After (now + 600) 400, SendCancel (now + 1000),
       Log Info ''ping received, waiting for a new connection'',
       Go_handOff ''wireguard'' \<lparr>cid = k, bind_port = 5000, raddr = ''10.0.0.5:51000''\<rparr>],
      now + 1000, Returned ())"
proof -
  have n: "(51000::int) \<noteq> 0" by simp
  show ?thesis
    unfolding Start_iteration_attempt[OF example_pinger_parse n]
    by (simp add: getConnection_example world_answer_def example_request_def pingReceiver_answer)
qed

lemma iteration_example_silent:
  "Start_iteration example_pinger now k example_request world_silent =
     ([Dequeue example_request, Log Info ''Pinging peer with'', Log Info ''ping target received'',
       ResolveUDPAddr ''10.0.0.5:51000'', Log Info ''remote socket: '',
       DialUDP 5000 ''10.0.0.5:51000'',
       Opened \<lparr>cid = k, bind_port = 5000, raddr = ''10.0.0.5:51000''\<rparr>,
       Log Info ''local socket: '',
       Go_ping \<lparr>cid = k, bind_port = 5000, raddr = ''10.0.0.5:51000''\<rparr>,
       Read now, Log Error_level ''Failed to read remote peer'', Sleep (now + 9900) 200,
       SendCancel (now + 10100), Log Error_level ''ping receiver error: ''],
      now + 10100, Returned ())"
proof -
  have n: "(51000::int) \<noteq> 0" by simp
  show ?thesis
    unfolding Start_iteration_attempt[OF example_pinger_parse n]
    by (simp add: getConnection_example world_silent_def example_request_def pingReceiver_silent)
qed

lemma Start_example_answer:
  "Start example_pinger 0 [(example_request, world_answer)] =
     ([Log Info ''Starting a NAT pinger'', WaitForEvent,
       Dequeue example_request, Log Info ''Pinging peer with'',
       Log Info ''ping target received'',
       ResolveUDPAddr ''10.0.0.5:51000'', Log Info ''remote socket: '',
       DialUDP 5000 ''10.0.0.5:51000'',
       Opened \<lparr>cid = 0, bind_port = 5000, raddr = ''10.0.0.5:51000''\<rparr>,
       Log Info ''local socket: '',
       Go_ping \<lparr>cid = 0, bind_port = 5000, raddr = ''10.0.0.5:51000''\<rparr>,
       Read 0, Println 600 24, After 600 400, SendCancel 1000,
       Log Info ''ping received, waiting for a new connection'',
       Go_handOff ''wireguard'' \<lparr>cid = 0, bind_port = 5000, raddr = ''10.0.0.5:51000''\<rparr>],
      Blocked InDequeue)"
proof -
  have n: "(51000::int) \<noteq> 0" by simp
  have w: "natEventWaiter example_pinger = Some \<lparr>Type = FailureEventType\<rparr>"
    by (simp add: example_pinger_def NewPingerFactory_def)
  have i: "idle world_answer = 0" by (simp add: world_answer_def)
  have it: "Start_iteration example_pinger 0 0 example_request world_answer =
     ([Dequeue example_request, Log Info ''Pinging peer with'',
       Log Info ''ping target received'',
       ResolveUDPAddr ''10.0.0.5:51000'', Log Info ''remote socket: '',
       DialUDP 5000 ''10.0.0.5:51000'',
       Opened \<lparr>cid = 0, bind_port = 5000, raddr = ''10.0.0.5:51000''\<rparr>,
       Log Info ''local socket: '',
       Go_ping \<lparr>cid = 0, bind_port = 5000, raddr = ''10.0.0.5:51000''\<rparr>,
       Read 0, Println 600 24, After 600 400, SendCancel 1000,
       Log Info ''ping received, waiting for a new connection'',
       Go_handOff ''wireguard'' \<lparr>cid = 0, bind_port = 5000, raddr = ''10.0.0.5:51000''\<rparr>],
      1000, Returned ())"
    unfolding Start_iteration_attempt[OF example_pinger_parse n]
    by (simp add: getConnection_example world_answer_def example_request_def pingReceiver_answer)
  show ?thesis
    by (simp add: Start_def w i it)
qed

lemma Start_example_two:
  "Start example_pinger 0 [(example_request, world_answer), (example_request, world_silent)] =
     ([Log Info ''Starting a NAT pinger'', WaitForEvent,
       Dequeue example_request, Log Info ''Pinging peer with'',
       Log Info ''ping target received'',
       ResolveUDPAddr ''10.0.0.5:51000'', Log Info ''remote socket: '',
       DialUDP 5000 ''10.0.0.5:51000'',
       Opened \<lparr>cid = 0, bind_port = 5000, raddr = ''10.0.0.5:51000''\<rparr>,
       Log Info ''local socket: '',
       Go_ping \<lparr>cid = 0, bind_port = 5000, raddr = ''10.0.0.5:51000''\<rparr>,
       Read 0, Println 600 24, After 600 400, SendCancel 1000,
       Log Info ''ping received, waiting for a new connection'',
       Go_handOff ''wireguard'' \<lparr>cid = 0, bind_port = 5000, raddr = ''10.0.0.5:51000''\<rparr>,
       Dequeue example_request, Log Info ''Pinging peer with'', Log Info ''ping target received'',
       ResolveUDPAddr ''10.0.0.5:51000'', Log Info ''remote socket: '',
       DialUDP 5000 ''10.0.0.5:51000'',
       Opened \<lparr>cid = 1, bind_port = 5000, raddr = ''10.0.0.5:51000''\<rparr>,
       Log Info ''local socket: '',
       Go_ping \<lparr>cid = 1, bind_port = 5000, raddr = ''10.0.0.5:51000''\<rparr>,
       Read 1000, Log Error_level ''Failed to read remote peer'', Sleep 10900 200,
       SendCancel 11100, Log Error_level ''ping receiver error: ''],
      Blocked InDequeue)"
proof -
  have w: "natEventWaiter example_pinger = Some \<lparr>Type = FailureEventType\<rparr>"
    by (simp add: example_pinger_def NewPingerFactory_def)
  have i: "idle world_answer = 0" "idle world_silent = 0"
    by (simp_all add: world_answer_def world_silent_def)
  show ?thesis
    by (simp add: Start_def w i iteration_example_answer iteration_example_silent)
qed

subsection \<open>The first datagram\<close>






subsection \<open>Sockets opened, handed off and closed by one request\<close>

lemma iteration_accounting_aux:
  assumes "configParser p (RequestConfig prm) = (ip, port, st, err)"
    and "natProxy p st" and "port \<noteq> 0"
  shows "opened (fst (Start_iteration p now k prm w)) =
           (case snd (getConnection w k ip port (Port prm)) of Inl e \<Rightarrow> [] | Inr c \<Rightarrow> [c])
       \<and> length (opened (fst (Start_iteration p now k prm w))) \<le> 1
       \<and> (handoffs (fst (Start_iteration p now k prm w)) = [] \<or>
          closes (fst (Start_iteration p now k prm w)) = [])
       \<and> (\<forall>c. snd (getConnection w k ip port (Port prm)) = Inr c \<and>
               snd (snd (pingReceiver (sender_alive now (ticks w)) now (reads w))) = Returned None
            \<longrightarrow> handoffs (fst (Start_iteration p now k prm w)) = [(st, c)] \<and>
                closes (fst (Start_iteration p now k prm w)) = [])"
  unfolding Start_iteration_attempt[OF assms] pingReceiver_def
  by (cases err)
     (simp_all add: Let_def opened_append handoffs_append closes_append
       getConnection_trace recv_loop_trace split: sum.splits outcome.splits option.splits)

text \<open>
  C3, as claimed: every request with an available proxy and a non-zero decoded
  port opens exactly one socket, which is then handed off exactly once or closed
  exactly once.  It fails on two runs of the example provider.  When
  \<open>net.DialUDP\<close> fails, \<open>getConnection\<close> returns the error and the iteration
  ends with no socket opened.  When the receiver times out, one socket is opened
  and the iteration ends after the log line, with neither a handoff nor a close
  (\<open>iteration_example_silent\<close> is the whole run); \<open>PingProvider\<close> closes its
  socket on every return, the dispatch loop has no \<open>conn.Close()\<close>.
\<close>

theorem one_socket_one_release_counterexample:
  "configParser example_pinger (RequestConfig example_request) =
     (''10.0.0.5'', 51000, ''wireguard'', None)
   \<and> natProxy example_pinger ''wireguard'' \<and> (51000::int) \<noteq> 0
   \<and> \<not> (length (opened (fst (Start_iteration example_pinger 0 0 example_request world_dial_fails))) = 1
        \<and> (length (handoffs (fst (Start_iteration example_pinger 0 0 example_request world_dial_fails))) = 1
              \<and> closes (fst (Start_iteration example_pinger 0 0 example_request world_dial_fails)) = []
            \<or> handoffs (fst (Start_iteration example_pinger 0 0 example_request world_dial_fails)) = []
              \<and> length (closes (fst (Start_iteration example_pinger 0 0 example_request world_dial_fails))) = 1))
   \<and> \<not> (length (opened (fst (Start_iteration example_pinger 0 0 example_request world_silent))) = 1
        \<and> (length (handoffs (fst (Start_iteration example_pinger 0 0 example_request world_silent))) = 1
              \<and> closes (fst (Start_iteration example_pinger 0 0 example_request world_silent)) = []
            \<or> handoffs (fst (Start_iteration example_pinger 0 0 example_request world_silent)) = []
              \<and> length (closes (fst (Start_iteration example_pinger 0 0 example_request world_silent))) = 1))"
proof -
  have p: "configParser example_pinger (RequestConfig example_request) =
      (''10.0.0.5'', 51000, ''wireguard'', None)"
    and a: "natProxy example_pinger ''wireguard''"
    by (simp_all add: example_pinger_def NewPingerFactory_def)
  have n: "(51000::int) \<noteq> 0" by simp
  have 1: "opened (fst (Start_iteration example_pinger 0 0 example_request world_dial_fails)) = []"
    unfolding Start_iteration_attempt[OF p a n]
    by (simp add: world_dial_fails_def getConnection_cases Let_def)
  have 2: "closes (fst (Start_iteration example_pinger 0 0 example_request world_silent)) = []
      \<and> handoffs (fst (Start_iteration example_pinger 0 0 example_request world_silent)) = []"
    unfolding Start_iteration_attempt[OF p a n]
    by (simp add: world_silent_def getConnection_cases Let_def pingReceiver_def pingTimeout_def
        pingInterval_def timed_out_def errors_New_def)
  from p a n 1 2 show ?thesis by simp
qed

text \<open>
  C3, amended.  For a request with an available proxy and a non-zero decoded
  port: at most one socket is opened, the one \<open>getConnection\<close> returns, and none
  when it returns an error; a handoff and a close never both occur; and when the
  receiver returns success the opened socket is handed off exactly once, for the
  decoded service type, and is not closed.
\<close>

theorem iteration_socket_accounting:
  assumes "configParser p (RequestConfig prm) = (ip, port, st, err)"
    and "natProxy p st" and "port \<noteq> 0"
  shows "opened (fst (Start_iteration p now k prm w)) =
           (case snd (getConnection w k ip port (Port prm)) of Inl e \<Rightarrow> [] | Inr c \<Rightarrow> [c])
       \<and> length (opened (fst (Start_iteration p now k prm w))) \<le> 1
       \<and> (handoffs (fst (Start_iteration p now k prm w)) = [] \<or>
          closes (fst (Start_iteration p now k prm w)) = [])
       \<and> (\<forall>c. snd (getConnection w k ip port (Port prm)) = Inr c \<and>
               snd (snd (pingReceiver (sender_alive now (ticks w)) now (reads w))) = Returned None
            \<longrightarrow> handoffs (fst (Start_iteration p now k prm w)) = [(st, c)] \<and>
                closes (fst (Start_iteration p now k prm w)) = [])"
  by (rule iteration_accounting_aux[OF assms])

theorem iteration_socket_accounting_witness:
  "configParser example_pinger (RequestConfig example_request) =
     (''10.0.0.5'', 51000, ''wireguard'', None)
   \<and> natProxy example_pinger ''wireguard'' \<and> (51000::int) \<noteq> 0
   \<and> opened (fst (Start_iteration example_pinger 0 0 example_request world_answer)) =
       [\<lparr>cid = 0, bind_port = 5000, raddr = ''10.0.0.5:51000''\<rparr>]
   \<and> handoffs (fst (Start_iteration example_pinger 0 0 example_request world_answer)) =
       [(''wireguard'', \<lparr>cid = 0, bind_port = 5000, raddr = ''10.0.0.5:51000''\<rparr>)]
   \<and> closes (fst (Start_iteration example_pinger 0 0 example_request world_answer)) = []"
proof -
  have n: "(51000::int) \<noteq> 0" by simp
  have g: "getConnection world_answer 0 ''10.0.0.5'' 51000 (Port example_request) =
      ([ResolveUDPAddr ''10.0.0.5:51000'', Log Info ''remote socket: '',
        DialUDP 5000 ''10.0.0.5:51000'',
        Opened \<lparr>cid = 0, bind_port = 5000, raddr = ''10.0.0.5:51000''\<rparr>,
        Log Info ''local socket: ''],
       Inr \<lparr>cid = 0, bind_port = 5000, raddr = ''10.0.0.5:51000''\<rparr>)"
    by (simp add: getConnection_example world_answer_def example_request_def)
  have r: "pingReceiver (sender_alive 0 (ticks world_answer)) 0 (reads world_answer) =
      ([Read 0, Println 600 24, After 600 400, SendCancel 1000], 1000, Returned None)"
    by (simp add: world_answer_def pingReceiver_answer)
  from iteration_socket_accounting[OF example_pinger_parse n, of 0 0 world_answer] g r n
    example_pinger_parse
  show ?thesis by simp
qed

subsection \<open>A decode failure\<close>

text \<open>
  C4.  When the parser returns an error together with the values \<open>ip\<close>, \<open>port\<close>
  and \<open>st\<close>, the iteration does what it does when the parser returns the same
  values and no error, with one more event: the warning, logged after the first
  two events.  The result and the time are the same, so the request is processed
  with the values the parse produced.
\<close>

theorem decode_failure_falls_through:
  assumes "configParser p (RequestConfig prm) = (ip, port, st, Some e)"
  shows "Start_iteration p now k prm w =
     (let (evs, t, r) =
            Start_iteration (p\<lparr>configParser := \<lambda>cfg. (ip, port, st, None)\<rparr>) now k prm w
      in (take 2 evs @ [Log Warn ''unable to parse ping message''] @ drop 2 evs, t, r))"
  using assms
  by (simp add: Start_iteration_def Let_def case_prod_beta
      split: sum.splits outcome.splits option.splits)

theorem decode_failure_falls_through_witness:
  "configParser failing_parser_pinger (RequestConfig example_request) =
     (''10.0.0.5'', 51000, ''wireguard'', Some (Error ''unexpected end of JSON input''))
   \<and> Start_iteration failing_parser_pinger 0 0 example_request world_answer =
     ([Dequeue example_request, Log Info ''Pinging peer with'',
       Log Warn ''unable to parse ping message'', Log Info ''ping target received'',
       ResolveUDPAddr ''10.0.0.5:51000'', Log Info ''remote socket: '',
       DialUDP 5000 ''10.0.0.5:51000'',
       Opened \<lparr>cid = 0, bind_port = 5000, raddr = ''10.0.0.5:51000''\<rparr>,
       Log Info ''local socket: '',
       Go_ping \<lparr>cid = 0, bind_port = 5000, raddr = ''10.0.0.5:51000''\<rparr>,
       Read 0, Println 600 24, After 600 400, SendCancel 1000,
       Log Info ''ping received, waiting for a new connection'',
       Go_handOff ''wireguard'' \<lparr>cid = 0, bind_port = 5000, raddr = ''10.0.0.5:51000''\<rparr>],
      1000, Returned ())"
proof -
  have p: "configParser failing_parser_pinger (RequestConfig example_request) =
     (''10.0.0.5'', 51000, ''wireguard'', Some (Error ''unexpected end of JSON input''))"
    by (simp add: failing_parser_pinger_def NewPingerFactory_def)
  have q: "configParser (failing_parser_pinger\<lparr>configParser :=
        \<lambda>cfg. (''10.0.0.5'', 51000, ''wireguard'', None)\<rparr>) (RequestConfig example_request) =
      (''10.0.0.5'', 51000, ''wireguard'', None)"
    and a: "natProxy (failing_parser_pinger\<lparr>configParser :=
        \<lambda>cfg. (''10.0.0.5'', 51000, ''wireguard'', None)\<rparr>) ''wireguard''"
    by (simp_all add: failing_parser_pinger_def NewPingerFactory_def)
  have n: "(51000::int) \<noteq> 0" by simp
  have ok: "Start_iteration (failing_parser_pinger\<lparr>configParser :=
        \<lambda>cfg. (''10.0.0.5'', 51000, ''wireguard'', None)\<rparr>) 0 0 example_request world_answer =
     ([Dequeue example_request, Log Info ''Pinging peer with'',
       Log Info ''ping target received'',
       ResolveUDPAddr ''10.0.0.5:51000'', Log Info ''remote socket: '',
       DialUDP 5000 ''10.0.0.5:51000'',
       Opened \<lparr>cid = 0, bind_port = 5000, raddr = ''10.0.0.5:51000''\<rparr>,
       Log Info ''local socket: '',
       Go_ping \<lparr>cid = 0, bind_port = 5000, raddr = ''10.0.0.5:51000''\<rparr>,
       Read 0, Println 600 24, After 600 400, SendCancel 1000,
       Log Info ''ping received, waiting for a new connection'',
       Go_handOff ''wireguard'' \<lparr>cid = 0, bind_port = 5000, raddr = ''10.0.0.5:51000''\<rparr>],
      1000, Returned ())"
    unfolding Start_iteration_attempt[OF q a n]
    by (simp add: getConnection_example world_answer_def example_request_def pingReceiver_answer)
  from decode_failure_falls_through[OF p, of 0 0 world_answer] ok p show ?thesis
    by simp
qed

subsection \<open>One attempt at a time\<close>

lemma recv_loop_serialized:
  "serialized b (fst (pingReceiver_loop taken dl now rs) @ ys) = serialized b ys"
  by (induction taken dl now rs rule: pingReceiver_loop.induct)
     (simp_all add: timed_out_def Let_def case_prod_beta attempt_end_def)

lemma getConnection_serialized:
  "serialized b (fst (getConnection w k ip port lp) @ ys) = serialized b ys"
  by (simp add: getConnection_cases attempt_end_def split: sum.splits option.splits)

lemma recv_loop_returned_taken:
  "snd (snd (pingReceiver_loop taken dl now rs)) = Returned x \<Longrightarrow> taken"
  by (induction taken dl now rs rule: pingReceiver_loop.induct)
     (simp_all add: timed_out_def Let_def case_prod_beta split: if_splits)

lemma ping_loop_cancel:
  "snd (ping_loop now n steps) = Blocked InSelect \<Longrightarrow>
   snd (ping_loop now n (steps @ [Cancelled])) = Returned None"
proof (induction now n steps rule: ping_loop.induct)
  case (3 now n ttl_err write_err rest)
  then show ?case
    by (cases ttl_err; cases write_err) (simp_all add: Let_def case_prod_beta)
qed simp_all

lemma iteration_serialized:
  "serialized False (fst (Start_iteration p now k prm w))"
  "snd (snd (Start_iteration p now k prm w)) = Returned u \<Longrightarrow>
   serialized False (fst (Start_iteration p now k prm w) @ ys) = serialized False ys"
proof -
  obtain ip port st err where parse: "configParser p (RequestConfig prm) = (ip, port, st, err)"
    by (cases "configParser p (RequestConfig prm)") auto
  show "serialized False (fst (Start_iteration p now k prm w))"
  proof (cases "natProxy p st \<and> port \<noteq> 0")
    case True
    then have a: "natProxy p st" and n: "port \<noteq> 0" by simp_all
    show ?thesis
      unfolding Start_iteration_attempt[OF parse a n] pingReceiver_def
      by (cases err)
         (simp_all add: Let_def attempt_end_def getConnection_serialized recv_loop_serialized
           recv_loop_serialized[where ys = "[]", simplified]
           split: sum.splits outcome.splits option.splits)
  next
    case False
    then have "\<not> natProxy p st \<or> port = 0" by simp
    from Start_iteration_skipped[OF parse this] show ?thesis
      by (cases err) (simp_all add: attempt_end_def)
  qed
  assume ret: "snd (snd (Start_iteration p now k prm w)) = Returned u"
  show "serialized False (fst (Start_iteration p now k prm w) @ ys) = serialized False ys"
  proof (cases "natProxy p st \<and> port \<noteq> 0")
    case True
    then have a: "natProxy p st" and n: "port \<noteq> 0" by simp_all
    from ret show ?thesis
      unfolding Start_iteration_attempt[OF parse a n] pingReceiver_def
      by (cases err)
         (simp_all add: Let_def attempt_end_def getConnection_serialized recv_loop_serialized
           split: sum.splits outcome.splits option.splits)
  next
    case False
    then have "\<not> natProxy p st \<or> port = 0" by simp
    from Start_iteration_skipped[OF parse this] show ?thesis
      by (cases err) (simp_all add: attempt_end_def)
  qed
qed

lemma Start_loop_serialized: "serialized False (fst (Start_loop p now k queue))"
proof (induction queue arbitrary: now k)
  case Nil
  show ?case by simp
next
  case (Cons a queue)
  obtain prm w where a: "a = (prm, w)" by (cases a)
  show ?case
  proof (cases "snd (snd (Start_iteration p (now + idle w) k prm w))")
    case (Returned u)
    from iteration_serialized(2)[OF Returned] Cons.IH Returned show ?thesis
      by (simp add: a case_prod_beta Let_def)
  next
    case (Blocked s)
    with iteration_serialized(1)[of p "now + idle w" k prm w] show ?thesis
      by (simp add: a case_prod_beta Let_def)
  qed
qed

lemma attempt_resolved_sender_returned:
  assumes "snd (snd (Start_iteration p t k prm w)) = Returned u"
    and "opened (fst (Start_iteration p t k prm w)) \<noteq> []"
  shows "snd (ping t (map (\<lambda>(e1, e2). Tick e1 e2) (ticks w) @ [Cancelled])) = Returned None"
proof -
  obtain ip port st err where parse: "configParser p (RequestConfig prm) = (ip, port, st, err)"
    by (cases "configParser p (RequestConfig prm)") auto
  have att: "natProxy p st \<and> port \<noteq> 0"
  proof (rule ccontr)
    assume "\<not> (natProxy p st \<and> port \<noteq> 0)"
    then have "\<not> natProxy p st \<or> port = 0" by simp
    from Start_iteration_skipped[OF parse this] assms(2) show False
      by (cases err) (simp_all split: if_splits)
  qed
  then have a: "natProxy p st" and n: "port \<noteq> 0" by simp_all
  from assms have "\<exists>x. snd (snd (pingReceiver (sender_alive t (ticks w)) t (reads w))) = Returned x"
    unfolding Start_iteration_attempt[OF parse a n]
    by (cases err)
       (auto simp: Let_def opened_append getConnection_trace
         split: sum.splits outcome.splits option.splits)
  then have "sender_alive t (ticks w)"
    unfolding pingReceiver_def using recv_loop_returned_taken by blast
  then show ?thesis
    unfolding sender_alive_def ping_def by (rule ping_loop_cancel)
qed

text \<open>
  C6.  In every trace of \<open>Start\<close> a request is dequeued only when no attempt is
  under way, a sender is started only when no attempt is under way, and an
  attempt is ended only when one is: the requests are processed one after the
  other, in the order of the queue, and the next one is dequeued only after the
  receiver of the previous attempt has returned, with success or with the
  timeout error.  When an iteration that opened a socket has returned, the
  sender of its attempt has received the cancellation and returned.
\<close>

theorem dispatch_loop_serialized:
  "serialized False (fst (Start p now queue))
   \<and> (snd (snd (Start_iteration p t k prm w)) = Returned () \<and>
      opened (fst (Start_iteration p t k prm w)) \<noteq> [] \<longrightarrow>
      snd (ping t (map (\<lambda>(e1, e2). Tick e1 e2) (ticks w) @ [Cancelled])) = Returned None)"
proof -
  have "serialized False (fst (Start p now queue))"
    using Start_loop_serialized[of p now 0 queue]
    by (simp add: Start_def attempt_end_def case_prod_beta Let_def split: option.splits)
  with attempt_resolved_sender_returned show ?thesis by blast
qed

theorem dispatch_loop_serialized_witness:
  "serialized False
     (fst (Start example_pinger 0
        [(example_request, world_answer), (example_request, world_silent)]))
   \<and> fst (Start example_pinger 0
        [(example_request, world_answer), (example_request, world_silent)]) =
      [Log Info ''Starting a NAT pinger'', WaitForEvent,
       Dequeue example_request, Log Info ''Pinging peer with'',
       Log Info ''ping target received'',
       ResolveUDPAddr ''10.0.0.5:51000'', Log Info ''remote socket: '',
       DialUDP 5000 ''10.0.0.5:51000'',
       Opened \<lparr>cid = 0, bind_port = 5000, raddr = ''10.0.0.5:51000''\<rparr>,
       Log Info ''local socket: '',
       Go_ping \<lparr>cid = 0, bind_port = 5000, raddr = ''10.0.0.5:51000''\<rparr>,
       Read 0, Println 600 24, After 600 400, SendCancel 1000,
       Log Info ''ping received, waiting for a new connection'',
       Go_handOff ''wireguard'' \<lparr>cid = 0, bind_port = 5000, raddr = ''10.0.0.5:51000''\<rparr>,
       Dequeue example_request, Log Info ''Pinging peer with'', Log Info ''ping target received'',
       ResolveUDPAddr ''10.0.0.5:51000'', Log Info ''remote socket: '',
       DialUDP 5000 ''10.0.0.5:51000'',
       Opened \<lparr>cid = 1, bind_port = 5000, raddr = ''10.0.0.5:51000''\<rparr>,
       Log Info ''local socket: '',
       Go_ping \<lparr>cid = 1, bind_port = 5000, raddr = ''10.0.0.5:51000''\<rparr>,
       Read 1000, Log Error_level ''Failed to read remote peer'', Sleep 10900 200,
       SendCancel 11100, Log Error_level ''ping receiver error: '']
   \<and> snd (snd (Start_iteration example_pinger 0 0 example_request world_answer)) = Returned ()
   \<and> opened (fst (Start_iteration example_pinger 0 0 example_request world_answer)) \<noteq> []
   \<and> snd (ping 0 (map (\<lambda>(e1, e2). Tick e1 e2) (ticks world_answer) @ [Cancelled])) = Returned None
   \<and> \<not> serialized False
        [Go_ping \<lparr>cid = 0, bind_port = 5000, raddr = ''10.0.0.5:51000''\<rparr>, Dequeue example_request]
   \<and> \<not> serialized False
        [Go_ping \<lparr>cid = 0, bind_port = 5000, raddr = ''10.0.0.5:51000''\<rparr>,
         Go_ping \<lparr>cid = 1, bind_port = 5000, raddr = ''10.0.0.5:51000''\<rparr>]"
proof -
  have 1: "snd (snd (Start_iteration example_pinger 0 0 example_request world_answer)) = Returned ()"
    and 2: "opened (fst (Start_iteration example_pinger 0 0 example_request world_answer)) \<noteq> []"
    by (simp_all add: iteration_example_answer)
  have 3: "\<not> serialized False
        [Go_ping \<lparr>cid = 0, bind_port = 5000, raddr = ''10.0.0.5:51000''\<rparr>, Dequeue example_request]"
    and 4: "\<not> serialized False
        [Go_ping \<lparr>cid = 0, bind_port = 5000, raddr = ''10.0.0.5:51000''\<rparr>,
         Go_ping \<lparr>cid = 1, bind_port = 5000, raddr = ''10.0.0.5:51000''\<rparr>]"
    by simp_all
  have 5: "fst (Start example_pinger 0
        [(example_request, world_answer), (example_request, world_silent)]) =
      [Log Info ''Starting a NAT pinger'', WaitForEvent,
       Dequeue example_request, Log Info ''Pinging peer with'',
       Log Info ''ping target received'',
       ResolveUDPAddr ''10.0.0.5:51000'', Log Info ''remote socket: '',
       DialUDP 5000 ''10.0.0.5:51000'',
       Opened \<lparr>cid = 0, bind_port = 5000, raddr = ''10.0.0.5:51000''\<rparr>,
       Log Info ''local socket: '',
       Go_ping \<lparr>cid = 0, bind_port = 5000, raddr = ''10.0.0.5:51000''\<rparr>,
       Read 0, Println 600 24, After 600 400, SendCancel 1000,
       Log Info ''ping received, waiting for a new connection'',
       Go_handOff ''wireguard'' \<lparr>cid = 0, bind_port = 5000, raddr = ''10.0.0.5:51000''\<rparr>,
       Dequeue example_request, Log Info ''Pinging peer with'', Log Info ''ping target received'',
       ResolveUDPAddr ''10.0.0.5:51000'', Log Info ''remote socket: '',
       DialUDP 5000 ''10.0.0.5:51000'',
       Opened \<lparr>cid = 1, bind_port = 5000, raddr = ''10.0.0.5:51000''\<rparr>,
       Log Info ''local socket: '',
       Go_ping \<lparr>cid = 1, bind_port = 5000, raddr = ''10.0.0.5:51000''\<rparr>,
       Read 1000, Log Error_level ''Failed to read remote peer'', Sleep 10900 200,
       SendCancel 11100, Log Error_level ''ping receiver error: '']"
    by (simp only: Start_example_two fst_conv)
  have 6: "serialized False
     (fst (Start example_pinger 0
        [(example_request, world_answer), (example_request, world_silent)]))
    \<and> snd (ping 0 (map (\<lambda>(e1, e2). Tick e1 e2) (ticks world_answer) @ [Cancelled])) = Returned None"
    using dispatch_loop_serialized[of example_pinger 0
      "[(example_request, world_answer), (example_request, world_silent)]"
      0 0 example_request world_answer] 1 2
    by blast
  from 1 2 3 4 5 6 show ?thesis by blast
qed

subsection \<open>The short-circuit of \<open>Start\<close>\<close>

text \<open>
  C7.  When the waiter reports an event of type \<open>SuccessEventType\<close>, \<open>Start\<close>
  logs its first line, waits for the event and returns: whatever requests are
  queued, none is dequeued, and the call is over.
\<close>

theorem success_event_skips_loop:
  assumes "natEventWaiter p = Some ev" and "Type ev = SuccessEventType"
  shows "Start p now queue = ([Log Info ''Starting a NAT pinger'', WaitForEvent], Returned ())"
  using assms by (simp add: Start_def)

theorem success_event_skips_loop_witness:
  "natEventWaiter (example_pinger\<lparr>natEventWaiter := Some \<lparr>Type = SuccessEventType\<rparr>\<rparr>) =
     Some \<lparr>Type = SuccessEventType\<rparr>
   \<and> Type \<lparr>Type = SuccessEventType\<rparr> = SuccessEventType
   \<and> Start (example_pinger\<lparr>natEventWaiter := Some \<lparr>Type = SuccessEventType\<rparr>\<rparr>) 0
       [(example_request, world_answer), (example_request, world_silent)] =
     ([Log Info ''Starting a NAT pinger'', WaitForEvent], Returned ())"
  using success_event_skips_loop[of "example_pinger\<lparr>natEventWaiter := Some \<lparr>Type = SuccessEventType\<rparr>\<rparr>"
      "\<lparr>Type = SuccessEventType\<rparr>" 0 "[(example_request, world_answer), (example_request, world_silent)]"]
  by simp

subsection \<open>The local port of the punch socket\<close>

lemma iteration_opened_conn:
  "c \<in> set (opened (fst (Start_iteration p now k prm w))) \<Longrightarrow> cid c = k \<and> bind_port c = Port prm"
proof -
  assume c: "c \<in> set (opened (fst (Start_iteration p now k prm w)))"
  obtain ip port st err where parse: "configParser p (RequestConfig prm) = (ip, port, st, err)"
    by (cases "configParser p (RequestConfig prm)") auto
  have att: "natProxy p st \<and> port \<noteq> 0"
  proof (rule ccontr)
    assume "\<not> (natProxy p st \<and> port \<noteq> 0)"
    then have "\<not> natProxy p st \<or> port = 0" by simp
    from Start_iteration_skipped[OF parse this] c show False
      by (cases err) (simp_all split: if_splits)
  qed
  then have a: "natProxy p st" and n: "port \<noteq> 0" by simp_all
  from iteration_accounting_aux[OF parse a n, of now k w] c
  have "snd (getConnection w k ip port (Port prm)) = Inr c"
    by (auto split: sum.splits)
  then show ?thesis by (rule getConnection_conn)
qed

lemma iteration_no_Acquire: "Acquire \<notin> set (fst (Start_iteration p now k prm w))"
proof -
  obtain ip port st err where parse: "configParser p (RequestConfig prm) = (ip, port, st, err)"
    by (cases "configParser p (RequestConfig prm)") auto
  show ?thesis
  proof (cases "natProxy p st \<and> port \<noteq> 0")
    case True
    then have a: "natProxy p st" and n: "port \<noteq> 0" by simp_all
    show ?thesis
      unfolding Start_iteration_attempt[OF parse a n] pingReceiver_def
      by (cases err)
         (simp_all add: Let_def getConnection_trace recv_loop_trace
           split: sum.splits outcome.splits option.splits)
  next
    case False
    then have "\<not> natProxy p st \<or> port = 0" by simp
    from Start_iteration_skipped[OF parse this] show ?thesis
      by (cases err) simp_all
  qed
qed

lemma Start_loop_opened:
  "c \<in> set (opened (fst (Start_loop p now k queue))) \<Longrightarrow>
   k \<le> cid c \<and> cid c < k + length queue \<and> bind_port c = Port (fst (queue ! (cid c - k)))"
proof (induction queue arbitrary: now k)
  case Nil
  then show ?case by simp
next
  case (Cons a queue)
  obtain prm w where a: "a = (prm, w)" by (cases a)
  let ?I = "Start_iteration p (now + idle w) k prm w"
  show ?case
  proof (cases "c \<in> set (opened (fst ?I))")
    case True
    from iteration_opened_conn[OF True] show ?thesis by (simp add: a)
  next
    case False
    with Cons.prems have "c \<in> set (opened (fst (Start_loop p (fst (snd ?I)) (Suc k) queue)))"
      by (simp add: a Start_loop_step opened_append del: Start_loop.simps split: outcome.splits)
    from Cons.IH[OF this] show ?thesis
      by (auto simp: a Suc_diff_le)
  qed
qed

lemma Start_loop_no_Acquire: "Acquire \<notin> set (fst (Start_loop p now k queue))"
proof (induction queue arbitrary: now k)
  case Nil
  show ?case by simp
next
  case (Cons a queue)
  obtain prm w where a: "a = (prm, w)" by (cases a)
  from Cons.IH iteration_no_Acquire show ?case
    by (simp add: a Start_loop_step del: Start_loop.simps split: outcome.splits)
qed

lemma Start_iteration_portPool:
  "Start_iteration (p\<lparr>portPool := pool\<rparr>) now k prm w = Start_iteration p now k prm w"
  by (simp add: Start_iteration_def)

lemma Start_loop_portPool:
  "Start_loop (p\<lparr>portPool := pool\<rparr>) now k queue = Start_loop p now k queue"
proof (induction queue arbitrary: now k)
  case Nil
  show ?case by simp
next
  case (Cons a queue)
  obtain prm w where a: "a = (prm, w)" by (cases a)
  from Cons.IH show ?case
    by (simp add: a Start_loop_step Start_iteration_portPool del: Start_loop.simps
        split: outcome.splits)
qed

text \<open>
  C8, as claimed: the local port of the punch socket comes from the port
  supplier's \<open>Acquire\<close>.  The example provider has a port supplier that would
  hand out 7000 and receives a request that carries the port 5000: the socket is
  dialled with the local port 5000 and \<open>Acquire\<close> is never called.
\<close>

theorem port_supplier_counterexample:
  "portPool example_pinger = Inr 7000
   \<and> Port example_request = 5000
   \<and> dial_ports (fst (Start example_pinger 0 [(example_request, world_answer)])) = [5000]
   \<and> map bind_port (opened (fst (Start example_pinger 0 [(example_request, world_answer)]))) = [5000]
   \<and> Acquire \<notin> set (fst (Start example_pinger 0 [(example_request, world_answer)]))"
  by (simp add: Start_example_answer)
     (simp add: example_pinger_def NewPingerFactory_def example_request_def)

text \<open>
  C8, amended.  Every socket the dispatch loop opens is bound to the local port
  carried by the request it is opened for (\<open>Params.Port\<close>); \<open>Start\<close> never calls
  the port supplier's \<open>Acquire\<close>, and what \<open>Start\<close> does is the same whatever
  the port supplier is.
\<close>

theorem local_port_from_request:
  "(\<forall>c\<in>set (opened (fst (Start p now queue))).
      cid c < length queue \<and> bind_port c = Port (fst (queue ! cid c)))
   \<and> Acquire \<notin> set (fst (Start p now queue))
   \<and> Start (p\<lparr>portPool := pool\<rparr>) now queue = Start p now queue"
proof -
  have 1: "\<forall>c\<in>set (opened (fst (Start p now queue))).
      cid c < length queue \<and> bind_port c = Port (fst (queue ! cid c))"
    using Start_loop_opened[of _ p now 0 queue]
    by (auto simp: Start_def case_prod_beta Let_def split: option.splits if_splits)
  have 2: "Acquire \<notin> set (fst (Start p now queue))"
    using Start_loop_no_Acquire[of p now 0 queue]
    by (simp add: Start_def case_prod_beta Let_def split: option.splits)
  have 3: "Start (p\<lparr>portPool := pool\<rparr>) now queue = Start p now queue"
    by (simp add: Start_def Start_loop_portPool split: option.splits)
  from 1 2 3 show ?thesis by blast
qed

theorem local_port_from_request_witness:
  "opened (fst (Start example_pinger 0 [(example_request, world_answer)])) =
     [\<lparr>cid = 0, bind_port = 5000, raddr = ''10.0.0.5:51000''\<rparr>]
   \<and> bind_port \<lparr>cid = 0, bind_port = 5000, raddr = ''10.0.0.5:51000''\<rparr> =
       Port (fst ([(example_request, world_answer)] ! 0))
   \<and> Start (example_pinger\<lparr>portPool := Inl (Error ''no ports left'')\<rparr>) 0
       [(example_request, world_answer)] =
     Start example_pinger 0 [(example_request, world_answer)]"
  using local_port_from_request[of example_pinger 0 "[(example_request, world_answer)]"
      "Inl (Error ''no ports left'')"]
  by (simp add: Start_example_answer)

subsection \<open>The consumer port when none was bound\<close>

lemma PingProvider_dial_ports:
  "dial_ports (fst (PingProvider p now w ip port)) =
     (case resolve w (ip @ '':'' @ fmt_d port) of Inl e \<Rightarrow> [] | Inr a \<Rightarrow> [consumerPort p])"
  unfolding PingProvider_cases pingReceiver_def
  by (simp add: Let_def dial_ports_append recv_loop_trace getConnection_dial_ports
      split: sum.splits outcome.splits option.splits)

lemma PingProvider_proceeds:
  assumes "resolve w (ip @ '':'' @ fmt_d port) = Inr a" and "dial w (consumerPort p) a = None"
  shows "opened (fst (PingProvider p now w ip port)) =
           [\<lparr>cid = 0, bind_port = consumerPort p, raddr = a\<rparr>]
       \<and> Go_ping \<lparr>cid = 0, bind_port = consumerPort p, raddr = a\<rparr> \<in>
           set (fst (PingProvider p now w ip port))"
proof -
  have g: "getConnection w 0 ip port (consumerPort p) =
      ([ResolveUDPAddr (ip @ '':'' @ fmt_d port), Log Info ''remote socket: '',
        DialUDP (consumerPort p) a, Opened \<lparr>cid = 0, bind_port = consumerPort p, raddr = a\<rparr>,
        Log Info ''local socket: ''],
       Inr \<lparr>cid = 0, bind_port = consumerPort p, raddr = a\<rparr>)"
    using assms by (simp add: getConnection_cases)
  show ?thesis
    unfolding PingProvider_cases pingReceiver_def
    by (simp add: g Let_def opened_append recv_loop_trace split: outcome.splits option.splits)
qed

text \<open>
  C9.  A pinger on which \<open>BindConsumerPort\<close> was never called has the consumer
  port 0.  \<open>PingProvider\<close> on it dials with the local port 0 as soon as the
  address resolves; when that dial succeeds the socket is opened on port 0 and
  the sender is started on it.  \<open>PingProvider\<close> behaves as if port 0 had been
  bound: no check of the port makes it fail.
\<close>

theorem unbound_consumer_port_dials_zero:
  "consumerPort (NewPingerFactory wt pa pr pool) = 0
   \<and> dial_ports (fst (PingProvider (NewPingerFactory wt pa pr pool) now w ip port)) =
       (case resolve w (ip @ '':'' @ fmt_d port) of Inl e \<Rightarrow> [] | Inr a \<Rightarrow> [0])
   \<and> (\<forall>a. resolve w (ip @ '':'' @ fmt_d port) = Inr a \<and> dial w 0 a = None \<longrightarrow>
        opened (fst (PingProvider (NewPingerFactory wt pa pr pool) now w ip port)) =
          [\<lparr>cid = 0, bind_port = 0, raddr = a\<rparr>] \<and>
        Go_ping \<lparr>cid = 0, bind_port = 0, raddr = a\<rparr> \<in>
          set (fst (PingProvider (NewPingerFactory wt pa pr pool) now w ip port)))
   \<and> PingProvider (NewPingerFactory wt pa pr pool) now w ip port =
       PingProvider (BindConsumerPort (NewPingerFactory wt pa pr pool) 0) now w ip port"
proof -
  let ?p = "NewPingerFactory wt pa pr pool"
  have 0: "consumerPort ?p = 0" by (simp add: NewPingerFactory_def)
  have 1: "dial_ports (fst (PingProvider ?p now w ip port)) =
       (case resolve w (ip @ '':'' @ fmt_d port) of Inl e \<Rightarrow> [] | Inr a \<Rightarrow> [0])"
    by (simp add: PingProvider_dial_ports 0 split: sum.splits)
  have 2: "\<forall>a. resolve w (ip @ '':'' @ fmt_d port) = Inr a \<and> dial w 0 a = None \<longrightarrow>
        opened (fst (PingProvider ?p now w ip port)) = [\<lparr>cid = 0, bind_port = 0, raddr = a\<rparr>] \<and>
        Go_ping \<lparr>cid = 0, bind_port = 0, raddr = a\<rparr> \<in> set (fst (PingProvider ?p now w ip port))"
    using PingProvider_proceeds[of w ip port _ ?p now] by (simp add: 0)
  have 3: "BindConsumerPort ?p 0 = ?p"
    by (simp add: BindConsumerPort_def NewPingerFactory_def)
  from 0 1 2 3 show ?thesis by simp
qed

theorem unbound_consumer_port_dials_zero_witness:
  "PingProvider (NewPingerFactory None (\<lambda>cfg. ([], 0, [], None)) (\<lambda>st. False) (Inr 7000))
      0 world_answer ''10.0.0.5'' 51000 =
     ([Log Info ''NAT pinging to provider'', ResolveUDPAddr ''10.0.0.5:51000'',
       Log Info ''remote socket: '', DialUDP 0 ''10.0.0.5:51000'',
       Opened \<lparr>cid = 0, bind_port = 0, raddr = ''10.0.0.5:51000''\<rparr>,
       Log Info ''local socket: '',
       Go_ping \<lparr>cid = 0, bind_port = 0, raddr = ''10.0.0.5:51000''\<rparr>, Sleep 0 200,
       Read 200, Println 800 24, After 800 400, SendCancel 1200, Sleep 1200 200,
       Close \<lparr>cid = 0, bind_port = 0, raddr = ''10.0.0.5:51000''\<rparr>],
      1400, Returned None)
   \<and> dial_ports (fst (PingProvider
        (NewPingerFactory None (\<lambda>cfg. ([], 0, [], None)) (\<lambda>st. False) (Inr 7000))
        0 world_answer ''10.0.0.5'' 51000)) = [0]"
proof -
  let ?p = "NewPingerFactory None (\<lambda>cfg. ([], 0, [], None)) (\<lambda>st. False) (Inr 7000)"
  have c: "consumerPort ?p = 0" by (simp add: NewPingerFactory_def)
  have g: "getConnection world_answer 0 ''10.0.0.5'' 51000 0 =
      ([ResolveUDPAddr ''10.0.0.5:51000'', Log Info ''remote socket: '',
        DialUDP 0 ''10.0.0.5:51000'',
        Opened \<lparr>cid = 0, bind_port = 0, raddr = ''10.0.0.5:51000''\<rparr>,
        Log Info ''local socket: ''],
       Inr \<lparr>cid = 0, bind_port = 0, raddr = ''10.0.0.5:51000''\<rparr>)"
    by (simp add: getConnection_example world_answer_def)
  have r: "pingReceiver (sender_alive 0 (ticks world_answer)) (0 + pingInterval)
        (reads world_answer) =
      ([Read 200, Println 800 24, After 800 400, SendCancel 1200], 1200, Returned None)"
    by (simp add: world_answer_def pingReceiver_answer pingInterval_def)
  have ev: "PingProvider ?p 0 world_answer ''10.0.0.5'' 51000 =
     ([Log Info ''NAT pinging to provider'', ResolveUDPAddr ''10.0.0.5:51000'',
       Log Info ''remote socket: '', DialUDP 0 ''10.0.0.5:51000'',
       Opened \<lparr>cid = 0, bind_port = 0, raddr = ''10.0.0.5:51000''\<rparr>,
       Log Info ''local socket: '',
       Go_ping \<lparr>cid = 0, bind_port = 0, raddr = ''10.0.0.5:51000''\<rparr>, Sleep 0 200,
       Read 200, Println 800 24, After 800 400, SendCancel 1200, Sleep 1200 200,
       Close \<lparr>cid = 0, bind_port = 0, raddr = ''10.0.0.5:51000''\<rparr>],
      1400, Returned None)"
    unfolding PingProvider_cases c g r by (simp add: pingInterval_def)
  have res: "resolve world_answer (''10.0.0.5'' @ '':'' @ fmt_d 51000) = Inr ''10.0.0.5:51000''"
    by (simp add: world_answer_def fmt_d_51000)
  have "dial_ports (fst (PingProvider ?p 0 world_answer ''10.0.0.5'' 51000)) = [0]"
    using unbound_consumer_port_dials_zero[of None "\<lambda>cfg. ([], 0, [], None)" "\<lambda>st. False"
        "Inr 7000" 0 world_answer "''10.0.0.5''" 51000, THEN conjunct2, THEN conjunct1]
    by (simp only: res sum.case)
  with ev show ?thesis by (rule conjI)
qed

end
